theory Spec2Isabelle
  imports Main
begin

section \<open>Strings, exceptions and the wire encoding (utils/http.py, utils/assertion.py)\<close>

text \<open>
  A Python \<open>str\<close> is represented by its UTF-8 encoding, one \<open>char\<close> per byte: the
  client only asks whether a segment is empty (\<open>len(part) == 0\<close>) and hands it to
  \<open>urllib.parse.quote\<close>, which works on exactly these bytes.  An \<open>int\<close> is an
  unbounded \<open>int\<close>.
\<close>

text \<open>
  Modelled from the spec: the exception classes of \<open>acapella/kv/utils/errors.py\<close>
  (\<open>CasError\<close>, \<open>TransactionNotFoundError\<close>, \<open>TransactionCompletedError\<close>, \<open>KvError\<close> with
  its message), which the client imports by these names; the spec lists them as the
  CAS conflict, transaction-not-found, transaction-already-completed and generic
  store error conditions.  The other constructors are Python's built-in exceptions
  that the client raises itself (\<open>ValueError\<close>, \<open>RuntimeError\<close>, \<open>TimeoutError\<close>), that
  attribute access on \<open>None\<close> raises (\<open>AttributeError\<close>, with the attribute's name), and
  two that the transport and the decoding of a response body may raise
  (\<open>ConnectionError\<close>, \<open>KeyError\<close>).
\<close>

datatype error =
    ValueError string
  | RuntimeError string
  | TimeoutError
  | CasError
  | TransactionNotFoundError
  | TransactionCompletedError
  | KvError string
  | AttributeError string
  | ConnectionError
  | KeyError string

text \<open>Python's decimal rendering of an \<open>int\<close>, as an f-string \<open>{code}\<close> produces it.\<close>

definition digit_char :: "nat \<Rightarrow> char" where
  "digit_char d = char_of (48 + d)"

function str_nat :: "nat \<Rightarrow> string" where
  "str_nat n = (if n < 10 then [digit_char n] else str_nat (n div 10) @ [digit_char (n mod 10)])"
  by pat_completeness auto
termination
  by (relation "measure (\<lambda>n. n)") auto

declare str_nat.simps [simp del]

definition str_int :: "int \<Rightarrow> string" where
  "str_int i = (if i < 0 then CHR ''-'' # str_nat (nat (- i)) else str_nat (nat i))"

text \<open>
  \<open>urllib.parse.quote(part)\<close> with its default \<open>safe='/'\<close>: letters, digits and
  \<open>_.-~\<close> and \<open>/\<close> are kept, every other byte becomes \<open>%XX\<close> with upper-case
  hexadecimal digits.  (Before Python 3.7 the tilde was escaped as well; nothing
  below depends on which of the two it is.)
\<close>

definition safe_chars :: string where
  "safe_chars = ''ABCDEFGHIJKLMNOPQRSTUVWXYZabcdefghijklmnopqrstuvwxyz0123456789_.-~/''"

definition hexdigit :: "nat \<Rightarrow> char" where
  "hexdigit d = (if d < 10 then char_of (48 + d) else char_of (55 + d))"

definition quote_byte :: "char \<Rightarrow> string" where
  "quote_byte c =
     (if c \<in> set safe_chars then [c]
      else [CHR ''%'', hexdigit (of_char c div 16), hexdigit (of_char c mod 16)])"

definition quote :: "string \<Rightarrow> string" where
  "quote s = concat (map quote_byte s)"

text \<open>\<open>sep.join(parts)\<close>.\<close>

fun join :: "string \<Rightarrow> string list \<Rightarrow> string" where
  "join sep [] = []"
| "join sep [x] = x"
| "join sep (x # y # ys) = x @ sep @ join sep (y # ys)"

definition key_to_str :: "string list \<Rightarrow> string" where
  "key_to_str key = join '':'' (map quote key)"

text \<open>\<open>raise_if_error\<close>: \<open>Inr ()\<close> is the plain \<open>return\<close>, \<open>Inl\<close> the exception raised.\<close>

definition raise_if_error :: "int \<Rightarrow> error + unit" where
  "raise_if_error code =
     (if code = 200 then Inr ()
      else if code = 408 then Inl TimeoutError
      else if code = 409 then Inl CasError
      else if code = 410 then Inl TransactionNotFoundError
      else if code = 412 then Inl TransactionCompletedError
      else Inl (KvError (''Unexpected server error with code '' @ str_int code)))"

text \<open>\<open>check_key_part\<close>, \<open>check_key\<close> (the loop stops at the first part that raises), \<open>check_nrw\<close>.\<close>

definition check_key_part :: "string \<Rightarrow> error + unit" where
  "check_key_part part =
     (if length part = 0 then Inl (ValueError ''All key parts must not be empty'') else Inr ())"

fun check_key_parts :: "string list \<Rightarrow> error + unit" where
  "check_key_parts [] = Inr ()"
| "check_key_parts (part # rest) =
     (case check_key_part part of Inl e \<Rightarrow> Inl e | Inr _ \<Rightarrow> check_key_parts rest)"

definition check_key :: "string list \<Rightarrow> error + unit" where
  "check_key key =
     (if length key = 0 then Inl (ValueError ''key must not be empty'')
      else check_key_parts key)"

definition check_nrw :: "int \<Rightarrow> int \<Rightarrow> int \<Rightarrow> error + unit" where
  "check_nrw n r w =
     (if n \<le> 0 then Inl (ValueError ''N parameter must be greater than zero'')
      else if n > 127 then Inl (ValueError ''N parameter must be less than 128'')
      else if r \<le> 0 then Inl (ValueError ''R parameter must be greater than zero'')
      else if w \<le> 0 then Inl (ValueError ''W parameter must be greater than zero'')
      else if r > n then Inl (ValueError ''R parameter must be less then or equal to N'')
      else if w > n then Inl (ValueError ''W parameter must be less then or equal to N'')
      else Inr ())"

section \<open>The transport (AsyncSession in utils/http.py)\<close>

text \<open>
  The HTTP library behind \<open>AsyncSession\<close> is an external collaborator.  A request is
  what the client hands to it: method, full URL, the \<open>params\<close> dictionary in the
  order written, and the \<open>json\<close> argument (\<open>None\<close> when absent or \<open>None\<close>).  A
  parameter value is an int, \<open>None\<close>, or the float \<open>timeout.total_seconds()\<close>, carried
  as the timedelta's whole number of microseconds.

  A response is seen through the three ways the client reads it: \<open>status_code\<close>;
  \<open>int_field name\<close>, the outcome of \<open>int(response.json()[name])\<close> (a number or the
  exception raised); and \<open>get_field name\<close>, the value of \<open>response.json().get(name)\<close>,
  read only after an \<open>int_field\<close> of the same body succeeded.  The payload type
  \<open>'v\<close> stands for any JSON-compatible value; \<open>None\<close> is Python's \<open>None\<close>.

  The world records every request issued (\<open>sent\<close>) and answers each one by
  \<open>respond\<close>, any function of the requests so far and the new request giving a
  response or the exception the transport raises.
\<close>

datatype http_method = GET | PUT | POST

datatype param = PInt int | PNone | PSeconds int

record 'v request =
  req_method :: http_method
  req_url :: string
  req_params :: "(string \<times> param) list"
  req_json :: "'v option"

record 'v response =
  status_code :: int
  int_field :: "string \<Rightarrow> error + int"
  get_field :: "string \<Rightarrow> 'v option"

record 'v world =
  sent :: "'v request list"
  respond :: "'v request list \<Rightarrow> 'v request \<Rightarrow> error + 'v response"

definition send :: "'v request \<Rightarrow> 'v world \<Rightarrow> (error + 'v response) \<times> 'v world" where
  "send rq wd = (respond wd (sent wd) rq, wd\<lparr>sent := sent wd @ [rq]\<rparr>)"

record async_session =
  base_url :: string

definition param_opt :: "int option \<Rightarrow> param" where
  "param_opt x = (case x of None \<Rightarrow> PNone | Some i \<Rightarrow> PInt i)"

text \<open>
  \<open>AsyncSession.get\<close>, \<open>put\<close> and \<open>post\<close> prefix the URL with \<open>base_url\<close> and pass
  the keyword arguments on; the client never passes \<open>params\<close> to \<open>post\<close> nor \<open>data\<close>
  to any of them.  The other methods of the class (\<open>options\<close>, \<open>head\<close>, \<open>patch\<close>,
  \<open>delete\<close>) have no caller.
\<close>

definition get_request :: "async_session \<Rightarrow> string \<Rightarrow> (string \<times> param) list \<Rightarrow> 'v request" where
  "get_request s url ps =
     \<lparr>req_method = GET, req_url = base_url s @ url, req_params = ps, req_json = None\<rparr>"

definition put_request ::
  "async_session \<Rightarrow> string \<Rightarrow> (string \<times> param) list \<Rightarrow> 'v option \<Rightarrow> 'v request" where
  "put_request s url ps js =
     \<lparr>req_method = PUT, req_url = base_url s @ url, req_params = ps, req_json = js\<rparr>"

definition post_request :: "async_session \<Rightarrow> string \<Rightarrow> 'v request" where
  "post_request s url =
     \<lparr>req_method = POST, req_url = base_url s @ url, req_params = [], req_json = None\<rparr>"

definition AsyncSession_get ::
  "async_session \<Rightarrow> string \<Rightarrow> (string \<times> param) list \<Rightarrow> 'v world
     \<Rightarrow> (error + 'v response) \<times> 'v world" where
  "AsyncSession_get s url ps wd = send (get_request s url ps) wd"

definition AsyncSession_put ::
  "async_session \<Rightarrow> string \<Rightarrow> (string \<times> param) list \<Rightarrow> 'v option \<Rightarrow> 'v world
     \<Rightarrow> (error + 'v response) \<times> 'v world" where
  "AsyncSession_put s url ps js wd = send (put_request s url ps js) wd"

definition AsyncSession_post ::
  "async_session \<Rightarrow> string \<Rightarrow> 'v world \<Rightarrow> (error + 'v response) \<times> 'v world" where
  "AsyncSession_post s url wd = send (post_request s url) wd"

section \<open>Entry (Entry.py)\<close>

record 'v entry =
  entry_session :: async_session
  entry_key :: "string list"
  entry_version :: int
  entry_value :: "'v option"
  entry_n :: int
  entry_r :: int
  entry_w :: int
  entry_transaction :: "int option"

text \<open>
  Every operation takes the object it is called on and the world, and returns what
  the call returns or raises, the object as the call leaves it, and the world.
\<close>

definition Entry_init ::
  "async_session \<Rightarrow> string list \<Rightarrow> int \<Rightarrow> 'v option \<Rightarrow> int \<Rightarrow> int \<Rightarrow> int \<Rightarrow> int option
     \<Rightarrow> 'v world \<Rightarrow> (error + 'v entry) \<times> 'v world" where
  "Entry_init s key version val n r w transaction wd =
     (case check_key key of
        Inl e \<Rightarrow> (Inl e, wd)
      | Inr _ \<Rightarrow>
          (case check_nrw n r w of
             Inl e \<Rightarrow> (Inl e, wd)
           | Inr _ \<Rightarrow>
               (Inr \<lparr>entry_session = s, entry_key = key, entry_version = version,
                     entry_value = val, entry_n = n, entry_r = r, entry_w = w,
                     entry_transaction = transaction\<rparr>, wd)))"

definition entry_url :: "'v entry \<Rightarrow> string" where
  "entry_url e = ''/v2/kv/keys/'' @ key_to_str (entry_key e)"

definition entry_params :: "'v entry \<Rightarrow> (string \<times> param) list" where
  "entry_params e =
     [(''n'', PInt (entry_n e)), (''r'', PInt (entry_r e)), (''w'', PInt (entry_w e)),
      (''transaction'', param_opt (entry_transaction e))]"

definition Entry_get :: "'v entry \<Rightarrow> 'v world \<Rightarrow> (error + 'v option) \<times> 'v entry \<times> 'v world" where
  "Entry_get e wd =
     (case AsyncSession_get (entry_session e) (entry_url e) (entry_params e) wd of
        (Inl ex, wd') \<Rightarrow> (Inl ex, e, wd')
      | (Inr response, wd') \<Rightarrow>
          (case raise_if_error (status_code response) of
             Inl ex \<Rightarrow> (Inl ex, e, wd')
           | Inr _ \<Rightarrow>
               (case int_field response ''version'' of
                  Inl ex \<Rightarrow> (Inl ex, e, wd')
                | Inr v \<Rightarrow>
                    (Inr (get_field response ''value''),
                     e\<lparr>entry_version := v, entry_value := get_field response ''value''\<rparr>,
                     wd'))))"

definition Entry_listen ::
  "'v entry \<Rightarrow> int option \<Rightarrow> int option \<Rightarrow> 'v world
     \<Rightarrow> (error + 'v option) \<times> 'v entry \<times> 'v world" where
  "Entry_listen e wait_version timeout wd =
     (let wait_version' = (case wait_version of None \<Rightarrow> entry_version e | Some v \<Rightarrow> v);
          timeout_seconds = (case timeout of None \<Rightarrow> PNone | Some t \<Rightarrow> PSeconds t)
      in case AsyncSession_get (entry_session e) (entry_url e)
                (entry_params e @
                 [(''wait-version'', PInt wait_version'), (''wait-timeout'', timeout_seconds)]) wd of
           (Inl ex, wd') \<Rightarrow> (Inl ex, e, wd')
         | (Inr response, wd') \<Rightarrow>
             (case raise_if_error (status_code response) of
                Inl ex \<Rightarrow> (Inl ex, e, wd')
              | Inr _ \<Rightarrow>
                  (case int_field response ''version'' of
                     Inl ex \<Rightarrow> (Inl ex, e, wd')
                   | Inr v \<Rightarrow>
                       (Inr (get_field response ''value''),
                        e\<lparr>entry_version := v, entry_value := get_field response ''value''\<rparr>,
                        wd'))))"

definition Entry_set :: "'v entry \<Rightarrow> 'v option \<Rightarrow> 'v world \<Rightarrow> (error + int) \<times> 'v entry \<times> 'v world" where
  "Entry_set e new_value wd =
     (case AsyncSession_put (entry_session e) (entry_url e) (entry_params e) new_value wd of
        (Inl ex, wd') \<Rightarrow> (Inl ex, e, wd')
      | (Inr response, wd') \<Rightarrow>
          (case raise_if_error (status_code response) of
             Inl ex \<Rightarrow> (Inl ex, e, wd')
           | Inr _ \<Rightarrow>
               (case int_field response ''version'' of
                  Inl ex \<Rightarrow> (Inl ex, e, wd')
                | Inr v \<Rightarrow> (Inr v, e\<lparr>entry_version := v\<rparr>, wd'))))"

definition Entry_cas ::
  "'v entry \<Rightarrow> 'v option \<Rightarrow> int option \<Rightarrow> 'v world \<Rightarrow> (error + int) \<times> 'v entry \<times> 'v world" where
  "Entry_cas e new_value old_version wd =
     (let old_version' = (case old_version of None \<Rightarrow> entry_version e | Some v \<Rightarrow> v)
      in case AsyncSession_put (entry_session e) (entry_url e)
                (entry_params e @ [(''old-version'', PInt old_version')]) new_value wd of
           (Inl ex, wd') \<Rightarrow> (Inl ex, e, wd')
         | (Inr response, wd') \<Rightarrow>
             (case raise_if_error (status_code response) of
                Inl ex \<Rightarrow> (Inl ex, e, wd')
              | Inr _ \<Rightarrow>
                  (case int_field response ''version'' of
                     Inl ex \<Rightarrow> (Inl ex, e, wd')
                   | Inr v \<Rightarrow> (Inr v, e\<lparr>entry_version := v\<rparr>, wd'))))"

section \<open>Transaction (Transaction.py)\<close>

record transaction =
  tx_session :: async_session
  tx_index :: int
  tx_completed :: bool

definition Transaction_init :: "async_session \<Rightarrow> int \<Rightarrow> transaction" where
  "Transaction_init s index = \<lparr>tx_session = s, tx_index = index, tx_completed = False\<rparr>"

definition tx_url :: "transaction \<Rightarrow> string \<Rightarrow> string" where
  "tx_url t action = ''/v2/tx/'' @ str_int (tx_index t) @ ''/'' @ action"

definition Transaction_commit ::
  "transaction \<Rightarrow> 'v world \<Rightarrow> (error + unit) \<times> transaction \<times> 'v world" where
  "Transaction_commit t wd =
     (if \<not> tx_completed t then
        (case AsyncSession_post (tx_session t) (tx_url t ''commit'') wd of
           (Inl ex, wd') \<Rightarrow> (Inl ex, t, wd')
         | (Inr response, wd') \<Rightarrow>
             (case raise_if_error (status_code response) of
                Inl ex \<Rightarrow> (Inl ex, t, wd')
              | Inr _ \<Rightarrow> (Inr (), t\<lparr>tx_completed := True\<rparr>, wd')))
      else (Inr (), t, wd))"

definition Transaction_rollback ::
  "transaction \<Rightarrow> 'v world \<Rightarrow> (error + unit) \<times> transaction \<times> 'v world" where
  "Transaction_rollback t wd =
     (if \<not> tx_completed t then
        (case AsyncSession_post (tx_session t) (tx_url t ''rollback'') wd of
           (Inl ex, wd') \<Rightarrow> (Inl ex, t, wd')
         | (Inr response, wd') \<Rightarrow>
             (case raise_if_error (status_code response) of
                Inl ex \<Rightarrow> (Inl ex, t, wd')
              | Inr _ \<Rightarrow> (Inr (), t\<lparr>tx_completed := True\<rparr>, wd')))
      else (Inr (), t, wd))"

definition Transaction_keep_alive ::
  "transaction \<Rightarrow> 'v world \<Rightarrow> (error + unit) \<times> transaction \<times> 'v world" where
  "Transaction_keep_alive t wd =
     (case AsyncSession_post (tx_session t) (tx_url t ''keep-alive'') wd of
        (Inl ex, wd') \<Rightarrow> (Inl ex, t, wd')
      | (Inr response, wd') \<Rightarrow>
          (case raise_if_error (status_code response) of
             Inl ex \<Rightarrow> (Inl ex, t, wd')
           | Inr _ \<Rightarrow> (Inr (), t, wd')))"

definition Transaction_entry ::
  "transaction \<Rightarrow> string list \<Rightarrow> int \<Rightarrow> int \<Rightarrow> int \<Rightarrow> 'v world \<Rightarrow> (error + 'v entry) \<times> 'v world" where
  "Transaction_entry t key n r w wd =
     Entry_init (tx_session t) key 0 None n r w (Some (tx_index t)) wd"

definition Transaction_get_entry ::
  "transaction \<Rightarrow> string list \<Rightarrow> int \<Rightarrow> int \<Rightarrow> int \<Rightarrow> 'v world \<Rightarrow> (error + 'v entry) \<times> 'v world" where
  "Transaction_get_entry t key n r w wd =
     (case Transaction_entry t key n r w wd of
        (Inl ex, wd') \<Rightarrow> (Inl ex, wd')
      | (Inr e, wd') \<Rightarrow>
          (case Entry_get e wd' of
             (Inl ex, e', wd'') \<Rightarrow> (Inl ex, wd'')
           | (Inr _, e', wd'') \<Rightarrow> (Inr e', wd'')))"

section \<open>TransactionContext (TransactionContext.py)\<close>

text \<open>
  The context stores the Transaction object that \<open>__aenter__\<close> also returns to the
  guarded block, so \<open>ctx_tx\<close> holds that object's current state (the block may have
  committed or rolled it back itself).  \<open>exc_type\<close> is \<open>None\<close> when the guarded block
  completed, otherwise the exception leaving it.
\<close>

record transaction_context =
  ctx_session :: async_session
  ctx_tx :: "transaction option"

definition TransactionContext_init :: "async_session \<Rightarrow> transaction_context" where
  "TransactionContext_init s = \<lparr>ctx_session = s, ctx_tx = None\<rparr>"

definition TransactionContext_enter :: "transaction_context \<Rightarrow> error + transaction" where
  "TransactionContext_enter c = Inl (RuntimeError [])"

definition TransactionContext_aenter ::
  "transaction_context \<Rightarrow> 'v world \<Rightarrow> (error + transaction) \<times> transaction_context \<times> 'v world" where
  "TransactionContext_aenter c wd =
     (if ctx_tx c \<noteq> None then
        (Inl (RuntimeError ''This transaction context already in entered state''), c, wd)
      else
        (case AsyncSession_post (ctx_session c) ''/v2/tx'' wd of
           (Inl ex, wd') \<Rightarrow> (Inl ex, c, wd')
         | (Inr response, wd') \<Rightarrow>
             (case raise_if_error (status_code response) of
                Inl ex \<Rightarrow> (Inl ex, c, wd')
              | Inr _ \<Rightarrow>
                  (case int_field response ''index'' of
                     Inl ex \<Rightarrow> (Inl ex, c, wd')
                   | Inr index \<Rightarrow>
                       (let tx = Transaction_init (ctx_session c) index
                        in (Inr tx, c\<lparr>ctx_tx := Some tx\<rparr>, wd'))))))"

definition TransactionContext_aexit ::
  "transaction_context \<Rightarrow> error option \<Rightarrow> 'v world
     \<Rightarrow> (error + unit) \<times> transaction_context \<times> 'v world" where
  "TransactionContext_aexit c exc_type wd =
     (case ctx_tx c of
        None \<Rightarrow> (Inl (AttributeError (if exc_type = None then ''commit'' else ''rollback'')), c, wd)
      | Some t \<Rightarrow>
          (case (if exc_type = None then Transaction_commit t wd else Transaction_rollback t wd) of
             (Inl ex, t', wd') \<Rightarrow> (Inl ex, c\<lparr>ctx_tx := Some t'\<rparr>, wd')
           | (Inr _, t', wd') \<Rightarrow> (Inr (), c\<lparr>ctx_tx := None\<rparr>, wd')))"

section \<open>Session (Session.py)\<close>

text \<open>
  The constructor keeps only the \<open>AsyncSession\<close>; the retry policy goes to the HTTP
  library.  \<open>Session.tree\<close> only constructs a \<open>Tree\<close> (module \<open>acapella.kv.Tree\<close>), which this
  development does not cover.
\<close>

record session =
  session_async :: async_session

definition Session_init :: "string \<Rightarrow> int \<Rightarrow> session" where
  "Session_init host port =
     \<lparr>session_async = \<lparr>base_url = ''http://'' @ host @ '':'' @ str_int port\<rparr>\<rparr>"

definition Session_transaction :: "session \<Rightarrow> transaction_context" where
  "Session_transaction s = TransactionContext_init (session_async s)"

definition Session_transaction_manual ::
  "session \<Rightarrow> 'v world \<Rightarrow> (error + transaction) \<times> 'v world" where
  "Session_transaction_manual s wd =
     (case AsyncSession_post (session_async s) ''/v2/tx'' wd of
        (Inl ex, wd') \<Rightarrow> (Inl ex, wd')
      | (Inr response, wd') \<Rightarrow>
          (case raise_if_error (status_code response) of
             Inl ex \<Rightarrow> (Inl ex, wd')
           | Inr _ \<Rightarrow>
               (case int_field response ''index'' of
                  Inl ex \<Rightarrow> (Inl ex, wd')
                | Inr index \<Rightarrow> (Inr (Transaction_init (session_async s) index), wd'))))"

definition Session_entry ::
  "session \<Rightarrow> string list \<Rightarrow> int \<Rightarrow> int \<Rightarrow> int \<Rightarrow> 'v world \<Rightarrow> (error + 'v entry) \<times> 'v world" where
  "Session_entry s key n r w wd = Entry_init (session_async s) key 0 None n r w None wd"

definition Session_get_entry ::
  "session \<Rightarrow> string list \<Rightarrow> int \<Rightarrow> int \<Rightarrow> int \<Rightarrow> 'v world \<Rightarrow> (error + 'v entry) \<times> 'v world" where
  "Session_get_entry s key n r w wd =
     (case Entry_init (session_async s) key 0 None n r w None wd of
        (Inl ex, wd') \<Rightarrow> (Inl ex, wd')
      | (Inr e, wd') \<Rightarrow>
          (case Entry_get e wd' of
             (Inl ex, e', wd'') \<Rightarrow> (Inl ex, wd'')
           | (Inr _, e', wd'') \<Rightarrow> (Inr e', wd'')))"

definition Session_get_version ::
  "session \<Rightarrow> string list \<Rightarrow> int \<Rightarrow> int \<Rightarrow> int \<Rightarrow> 'v world \<Rightarrow> (error + int) \<times> 'v world" where
  "Session_get_version s key n r w wd =
     (case AsyncSession_get (session_async s) (''/v2/kv/keys/'' @ key_to_str key @ ''/version'')
             [(''n'', PInt n), (''r'', PInt r), (''w'', PInt w)] wd of
        (Inl ex, wd') \<Rightarrow> (Inl ex, wd')
      | (Inr response, wd') \<Rightarrow>
          (case raise_if_error (status_code response) of
             Inl ex \<Rightarrow> (Inl ex, wd')
           | Inr _ \<Rightarrow>
               (case int_field response ''version'' of
                  Inl ex \<Rightarrow> (Inl ex, wd')
                | Inr v \<Rightarrow> (Inr v, wd'))))"

section \<open>Status codes\<close>

text \<open>The decimal rendering determines the number.\<close>

lemma of_char_digit_char: "d < 10 \<Longrightarrow> (of_char (digit_char d) :: nat) = 48 + d"
  by (simp add: digit_char_def)

lemma digit_char_inj:
  assumes "a < 10" "b < 10" "digit_char a = digit_char b"
  shows "a = b"
proof -
  have "(of_char (digit_char a) :: nat) = of_char (digit_char b)" using assms(3) by simp
  with assms(1,2) show ?thesis by (simp add: of_char_digit_char)
qed

lemma digit_char_not_minus: "d < 10 \<Longrightarrow> digit_char d \<noteq> CHR ''-''"
proof
  assume d: "d < 10" and "digit_char d = CHR ''-''"
  then have "(of_char (digit_char d) :: nat) = of_char (CHR ''-'')" by simp
  with d show False by (simp add: of_char_digit_char)
qed

lemma str_nat_nonempty: "str_nat n \<noteq> []"
  by (subst str_nat.simps) simp

lemma str_nat_no_minus: "CHR ''-'' \<notin> set (str_nat n)"
proof (induction n rule: str_nat.induct)
  case (1 n)
  show ?case
  proof (cases "n < 10")
    case True
    then show ?thesis
      using digit_char_not_minus [of n] by (subst str_nat.simps) auto
  next
    case False
    have "n mod 10 < 10" by simp
    then have "digit_char (n mod 10) \<noteq> CHR ''-''" by (rule digit_char_not_minus)
    with False "1.IH" show ?thesis by (subst str_nat.simps) auto
  qed
qed

lemma str_nat_inj: "str_nat n = str_nat m \<Longrightarrow> n = m"
proof (induction n arbitrary: m rule: str_nat.induct)
  case (1 n)
  have sn: "str_nat n = (if n < 10 then [digit_char n] else str_nat (n div 10) @ [digit_char (n mod 10)])"
    by (rule str_nat.simps)
  have sm: "str_nat m = (if m < 10 then [digit_char m] else str_nat (m div 10) @ [digit_char (m mod 10)])"
    by (rule str_nat.simps)
  show ?case
  proof (cases "n < 10")
    case nl: True
    show ?thesis
    proof (cases "m < 10")
      case True
      with nl sn sm "1.prems" have "digit_char n = digit_char m" by simp
      with nl True show ?thesis by (rule digit_char_inj)
    next
      case False
      with nl sn sm "1.prems" have "[digit_char n] = str_nat (m div 10) @ [digit_char (m mod 10)]"
        by simp
      then have "str_nat (m div 10) = []" by simp
      with str_nat_nonempty show ?thesis by blast
    qed
  next
    case ng: False
    show ?thesis
    proof (cases "m < 10")
      case True
      with ng sn sm "1.prems" have "str_nat (n div 10) @ [digit_char (n mod 10)] = [digit_char m]"
        by simp
      then have "str_nat (n div 10) = []" by simp
      with str_nat_nonempty show ?thesis by blast
    next
      case False
      with ng sn sm "1.prems"
      have "str_nat (n div 10) @ [digit_char (n mod 10)] = str_nat (m div 10) @ [digit_char (m mod 10)]"
        by simp
      then have a: "str_nat (n div 10) = str_nat (m div 10)"
        and b: "digit_char (n mod 10) = digit_char (m mod 10)" by simp_all
      from ng a have d: "n div 10 = m div 10" by (rule "1.IH")
      have "n mod 10 < 10" "m mod 10 < 10" by simp_all
      then have r: "n mod 10 = m mod 10" using b by (rule digit_char_inj)
      have "n = n div 10 * 10 + n mod 10" by simp
      also have "\<dots> = m div 10 * 10 + m mod 10" by (simp only: d r)
      also have "\<dots> = m" by simp
      finally show ?thesis .
    qed
  qed
qed

lemma str_int_inj: "str_int i = str_int j \<Longrightarrow> i = j"
proof -
  assume eq: "str_int i = str_int j"
  have no: "CHR ''-'' # xs \<noteq> str_nat n" for xs n
    using str_nat_no_minus [of n] by (metis list.set_intros(1))
  show "i = j"
  proof (cases "i < 0")
    case il: True
    show ?thesis
    proof (cases "j < 0")
      case True
      with il eq have "str_nat (nat (- i)) = str_nat (nat (- j))" by (simp add: str_int_def)
      then have "nat (- i) = nat (- j)" by (rule str_nat_inj)
      with il True show ?thesis by simp
    next
      case False
      with il eq have "CHR ''-'' # str_nat (nat (- i)) = str_nat (nat j)" by (simp add: str_int_def)
      with no show ?thesis by blast
    qed
  next
    case ig: False
    show ?thesis
    proof (cases "j < 0")
      case True
      with ig eq have "CHR ''-'' # str_nat (nat (- j)) = str_nat (nat i)" by (simp add: str_int_def)
      with no show ?thesis by blast
    next
      case False
      with ig eq have "str_nat (nat i) = str_nat (nat j)" by (simp add: str_int_def)
      then have "nat i = nat j" by (rule str_nat_inj)
      with ig False show ?thesis by simp
    qed
  qed
qed

text \<open>
  Claim C4.  The mapping from status code to condition is exact: \<open>raise_if_error\<close>
  returns on 200, raises the timeout condition on 408, the CAS conflict on 409,
  transaction-not-found on 410, transaction-already-completed on 412, and on every
  other code the generic store error whose message ends in that code; no other code
  raises the same error.
\<close>

theorem raise_if_error_mapping:
  "raise_if_error 200 = Inr ()
   \<and> raise_if_error 408 = Inl TimeoutError
   \<and> raise_if_error 409 = Inl CasError
   \<and> raise_if_error 410 = Inl TransactionNotFoundError
   \<and> raise_if_error 412 = Inl TransactionCompletedError
   \<and> (code \<notin> {200, 408, 409, 410, 412} \<longrightarrow>
        raise_if_error code = Inl (KvError (''Unexpected server error with code '' @ str_int code))
        \<and> (\<forall>code'. raise_if_error code' = raise_if_error code \<longrightarrow> code' = code))"
proof -
  have "code' = code"
    if "code \<notin> {200, 408, 409, 410, 412}" "raise_if_error code' = raise_if_error code" for code'
  proof -
    from that have "str_int code' = str_int code"
      by (simp add: raise_if_error_def split: if_splits)
    then show ?thesis by (rule str_int_inj)
  qed
  then show ?thesis by (simp add: raise_if_error_def)
qed

theorem raise_if_error_mapping_witness:
  "(500::int) \<notin> {200, 408, 409, 410, 412}
   \<and> raise_if_error 500 = Inl (KvError ''Unexpected server error with code 500'')"
proof -
  have "str_int 500 = ''500''" by code_simp
  then show ?thesis using raise_if_error_mapping [of 500] by simp
qed

lemma raise_if_error_Inr: "raise_if_error code = Inr u \<longleftrightarrow> code = 200"
  by (simp add: raise_if_error_def)

lemma raise_if_error_200: "raise_if_error 200 = Inr ()"
  by (simp add: raise_if_error_def)

section \<open>Validation\<close>

lemma check_key_parts_Inr: "check_key_parts key = Inr () \<longleftrightarrow> [] \<notin> set key"
  by (induction key) (auto simp: check_key_part_def)

lemma check_key_parts_Inl:
  "[] \<in> set key \<Longrightarrow> check_key_parts key = Inl (ValueError ''All key parts must not be empty'')"
  by (induction key) (auto simp: check_key_part_def)

lemma check_key_ok: "check_key key = Inr () \<longleftrightarrow> key \<noteq> [] \<and> [] \<notin> set key"
  by (simp add: check_key_def check_key_parts_Inr)

lemma check_key_fail:
  "key = [] \<or> [] \<in> set key \<Longrightarrow> \<exists>msg. check_key key = Inl (ValueError msg)"
  by (auto simp: check_key_def check_key_parts_Inl)

lemma check_nrw_ok:
  "check_nrw n r w = Inr () \<longleftrightarrow> 1 \<le> n \<and> n \<le> 127 \<and> 1 \<le> r \<and> r \<le> n \<and> 1 \<le> w \<and> w \<le> n"
  by (auto simp: check_nrw_def)

lemma check_nrw_fail:
  "\<not> (1 \<le> n \<and> n \<le> 127 \<and> 1 \<le> r \<and> r \<le> n \<and> 1 \<le> w \<and> w \<le> n)
    \<Longrightarrow> \<exists>msg. check_nrw n r w = Inl (ValueError msg)"
  by (auto simp: check_nrw_def)

text \<open>
  Claim C5.  Constructing an Entry raises a \<open>ValueError\<close> exactly when the key has no
  segment, has an empty segment, or \<open>(n, r, w)\<close> violates \<open>1 \<le> n \<le> 127\<close>,
  \<open>1 \<le> r \<le> n\<close>, \<open>1 \<le> w \<le> n\<close>; otherwise it returns the Entry holding the given
  session, key, version, value, quorum parameters and transaction.  Either way no
  request is issued: the world is returned as it was.
\<close>

theorem Entry_init_validation:
  "(if key = [] \<or> [] \<in> set key
       \<or> \<not> (1 \<le> n \<and> n \<le> 127 \<and> 1 \<le> r \<and> r \<le> n \<and> 1 \<le> w \<and> w \<le> n)
    then \<exists>msg. Entry_init s key version val n r w transaction wd = (Inl (ValueError msg), wd)
    else Entry_init s key version val n r w transaction wd =
           (Inr \<lparr>entry_session = s, entry_key = key, entry_version = version, entry_value = val,
                 entry_n = n, entry_r = r, entry_w = w, entry_transaction = transaction\<rparr>, wd))"
proof (cases "key = [] \<or> [] \<in> set key")
  case True
  then obtain msg where "check_key key = Inl (ValueError msg)"
    using check_key_fail by blast
  with True show ?thesis by (auto simp: Entry_init_def)
next
  case badkey: False
  then have k: "check_key key = Inr ()" by (simp add: check_key_ok)
  show ?thesis
  proof (cases "1 \<le> n \<and> n \<le> 127 \<and> 1 \<le> r \<and> r \<le> n \<and> 1 \<le> w \<and> w \<le> n")
    case True
    then have "check_nrw n r w = Inr ()" by (simp add: check_nrw_ok)
    with k badkey True show ?thesis by (auto simp: Entry_init_def)
  next
    case False
    then obtain msg where "check_nrw n r w = Inl (ValueError msg)"
      using check_nrw_fail by blast
    with k False show ?thesis by (auto simp: Entry_init_def)
  qed
qed

theorem Entry_init_validation_witness:
  "Entry_init \<lparr>base_url = ''http://127.0.0.1:12000''\<rparr> [''some'', ''key''] 0 (None :: string option)
       3 2 2 None \<lparr>sent = [], respond = (\<lambda>h rq. Inl ConnectionError)\<rparr>
     = (Inr \<lparr>entry_session = \<lparr>base_url = ''http://127.0.0.1:12000''\<rparr>,
             entry_key = [''some'', ''key''], entry_version = 0, entry_value = None,
             entry_n = 3, entry_r = 2, entry_w = 2, entry_transaction = None\<rparr>,
        \<lparr>sent = [], respond = (\<lambda>h rq. Inl ConnectionError)\<rparr>)
   \<and> (\<exists>msg. Entry_init \<lparr>base_url = ''http://127.0.0.1:12000''\<rparr> [''some'', ''''] 0
                 (None :: string option) 3 2 2 None
                 \<lparr>sent = [], respond = (\<lambda>h rq. Inl ConnectionError)\<rparr>
               = (Inl (ValueError msg), \<lparr>sent = [], respond = (\<lambda>h rq. Inl ConnectionError)\<rparr>))
   \<and> (\<exists>msg. Entry_init \<lparr>base_url = ''http://127.0.0.1:12000''\<rparr> [''some'', ''key''] 0
                 (None :: string option) 3 4 2 None
                 \<lparr>sent = [], respond = (\<lambda>h rq. Inl ConnectionError)\<rparr>
               = (Inl (ValueError msg), \<lparr>sent = [], respond = (\<lambda>h rq. Inl ConnectionError)\<rparr>))"
  using Entry_init_validation [where key = "[''some'', ''key'']" and n = 3 and r = 2 and w = 2
          and s = "\<lparr>base_url = ''http://127.0.0.1:12000''\<rparr>" and version = 0
          and val = "None :: string option" and transaction = None
          and wd = "\<lparr>sent = [], respond = (\<lambda>h rq. Inl ConnectionError)\<rparr>"]
        Entry_init_validation [where key = "[''some'', '''']" and n = 3 and r = 2 and w = 2
          and s = "\<lparr>base_url = ''http://127.0.0.1:12000''\<rparr>" and version = 0
          and val = "None :: string option" and transaction = None
          and wd = "\<lparr>sent = [], respond = (\<lambda>h rq. Inl ConnectionError)\<rparr>"]
        Entry_init_validation [where key = "[''some'', ''key'']" and n = 3 and r = 4 and w = 2
          and s = "\<lparr>base_url = ''http://127.0.0.1:12000''\<rparr>" and version = 0
          and val = "None :: string option" and transaction = None
          and wd = "\<lparr>sent = [], respond = (\<lambda>h rq. Inl ConnectionError)\<rparr>"]
  by simp

text \<open>
  The four operations that build an Entry check the key before anything is sent.
\<close>

lemma key_checked_before_request:
  assumes "key = [] \<or> [] \<in> set key"
  shows "\<exists>msg. Session_get_entry s key n r w wd = (Inl (ValueError msg), wd)
             \<and> Session_entry s key n r w wd = (Inl (ValueError msg), wd)
             \<and> Transaction_get_entry t key n r w wd = (Inl (ValueError msg), wd)
             \<and> Transaction_entry t key n r w wd = (Inl (ValueError msg), wd)"
proof -
  from assms obtain msg where "check_key key = Inl (ValueError msg)"
    using check_key_fail by blast
  then show ?thesis
    by (simp add: Session_get_entry_def Session_entry_def Transaction_get_entry_def
          Transaction_entry_def Entry_init_def)
qed

text \<open>
  Claim C3 fails for \<open>Session.get_version\<close>, which never calls \<open>check_key\<close>: with
  the empty key it issues \<open>GET /v2/kv/keys//version\<close> and returns the version the
  server answers with.
\<close>

theorem get_version_empty_key_sends_request:
  "fst (Session_get_version \<lparr>session_async = \<lparr>base_url = ''http://127.0.0.1:12000''\<rparr>\<rparr> [] 3 2 2
         (\<lparr>sent = [],
           respond = (\<lambda>h rq. Inr \<lparr>status_code = 200, int_field = (\<lambda>name. Inr 0),
                                     get_field = (\<lambda>name. None)\<rparr>)\<rparr> :: string world)) = Inr 0
   \<and> sent (snd (Session_get_version \<lparr>session_async = \<lparr>base_url = ''http://127.0.0.1:12000''\<rparr>\<rparr> [] 3 2 2
         (\<lparr>sent = [],
           respond = (\<lambda>h rq. Inr \<lparr>status_code = 200, int_field = (\<lambda>name. Inr 0),
                                     get_field = (\<lambda>name. None)\<rparr>)\<rparr> :: string world)))
       = [\<lparr>req_method = GET, req_url = ''http://127.0.0.1:12000/v2/kv/keys//version'',
           req_params = [(''n'', PInt 3), (''r'', PInt 2), (''w'', PInt 2)], req_json = None\<rparr>]"
  by (simp add: Session_get_version_def AsyncSession_get_def get_request_def send_def
        raise_if_error_def key_to_str_def)

section \<open>Transaction life cycle\<close>

text \<open>
  Claim C6.  On a locally completed transaction, \<open>commit\<close> and \<open>rollback\<close> return
  normally, issue no request and leave the transaction as it is.
\<close>

theorem completed_commit_rollback_noop:
  "tx_completed t \<Longrightarrow>
     Transaction_commit t wd = (Inr (), t, wd) \<and> Transaction_rollback t wd = (Inr (), t, wd)"
  by (simp add: Transaction_commit_def Transaction_rollback_def)

theorem completed_commit_rollback_noop_witness:
  "tx_completed \<lparr>tx_session = \<lparr>base_url = ''http://127.0.0.1:12000''\<rparr>, tx_index = 5, tx_completed = True\<rparr>
   \<and> Transaction_commit
         \<lparr>tx_session = \<lparr>base_url = ''http://127.0.0.1:12000''\<rparr>, tx_index = 5, tx_completed = True\<rparr>
         (\<lparr>sent = [], respond = (\<lambda>h rq. Inl ConnectionError)\<rparr> :: string world)
       = (Inr (),
          \<lparr>tx_session = \<lparr>base_url = ''http://127.0.0.1:12000''\<rparr>, tx_index = 5, tx_completed = True\<rparr>,
          \<lparr>sent = [], respond = (\<lambda>h rq. Inl ConnectionError)\<rparr>)
   \<and> Transaction_rollback
         \<lparr>tx_session = \<lparr>base_url = ''http://127.0.0.1:12000''\<rparr>, tx_index = 5, tx_completed = True\<rparr>
         (\<lparr>sent = [], respond = (\<lambda>h rq. Inl ConnectionError)\<rparr> :: string world)
       = (Inr (),
          \<lparr>tx_session = \<lparr>base_url = ''http://127.0.0.1:12000''\<rparr>, tx_index = 5, tx_completed = True\<rparr>,
          \<lparr>sent = [], respond = (\<lambda>h rq. Inl ConnectionError)\<rparr>)"
  using completed_commit_rollback_noop
          [of "\<lparr>tx_session = \<lparr>base_url = ''http://127.0.0.1:12000''\<rparr>, tx_index = 5, tx_completed = True\<rparr>"
              "\<lparr>sent = [], respond = (\<lambda>h rq. Inl ConnectionError)\<rparr> :: string world"]
  by simp

lemma commit_success_completed:
  "Transaction_commit t wd = (Inr (), t', wd') \<Longrightarrow> tx_completed t'"
  by (auto simp: Transaction_commit_def split: if_splits prod.splits sum.splits)

lemma rollback_success_completed:
  "Transaction_rollback t wd = (Inr (), t', wd') \<Longrightarrow> tx_completed t'"
  by (auto simp: Transaction_rollback_def split: if_splits prod.splits sum.splits)

text \<open>What \<open>commit\<close> and \<open>rollback\<close> do on a transaction that is not locally completed.\<close>

lemma commit_active:
  "\<not> tx_completed t \<Longrightarrow>
   Transaction_commit t wd =
     (case respond wd (sent wd) (post_request (tx_session t) (tx_url t ''commit'')) of
        Inl ex \<Rightarrow> (Inl ex, t, snd (send (post_request (tx_session t) (tx_url t ''commit'')) wd))
      | Inr response \<Rightarrow>
          (if status_code response = 200
           then (Inr (), t\<lparr>tx_completed := True\<rparr>,
                 snd (send (post_request (tx_session t) (tx_url t ''commit'')) wd))
           else (raise_if_error (status_code response), t,
                 snd (send (post_request (tx_session t) (tx_url t ''commit'')) wd))))"
  by (cases "raise_if_error (status_code (projr (respond wd (sent wd) (post_request (tx_session t) (tx_url t ''commit'')))))")
     (auto simp: Transaction_commit_def AsyncSession_post_def send_def raise_if_error_Inr raise_if_error_200
           split: sum.splits)

lemma rollback_active:
  "\<not> tx_completed t \<Longrightarrow>
   Transaction_rollback t wd =
     (case respond wd (sent wd) (post_request (tx_session t) (tx_url t ''rollback'')) of
        Inl ex \<Rightarrow> (Inl ex, t, snd (send (post_request (tx_session t) (tx_url t ''rollback'')) wd))
      | Inr response \<Rightarrow>
          (if status_code response = 200
           then (Inr (), t\<lparr>tx_completed := True\<rparr>,
                 snd (send (post_request (tx_session t) (tx_url t ''rollback'')) wd))
           else (raise_if_error (status_code response), t,
                 snd (send (post_request (tx_session t) (tx_url t ''rollback'')) wd))))"
  by (cases "raise_if_error (status_code (projr (respond wd (sent wd) (post_request (tx_session t) (tx_url t ''rollback'')))))")
     (auto simp: Transaction_rollback_def AsyncSession_post_def send_def raise_if_error_Inr raise_if_error_200
           split: sum.splits)

text \<open>
  Claim C9.  On a transaction that is not locally completed, \<open>commit\<close> and
  \<open>rollback\<close> set the completion flag exactly when the transport returned a response
  with status 200, which is exactly when they return normally.  When they raise,
  the transaction is as it was, so calling the operation again issues the request
  again.
\<close>

theorem completion_only_after_success:
  assumes active: "\<not> tx_completed t"
  shows "(tx_completed (fst (snd (Transaction_commit t wd)))
            \<longleftrightarrow> (\<exists>response.
                   respond wd (sent wd) (post_request (tx_session t) (tx_url t ''commit'')) = Inr response
                   \<and> status_code response = 200))
    \<and> (tx_completed (fst (snd (Transaction_commit t wd)))
            \<longleftrightarrow> fst (Transaction_commit t wd) = Inr ())
    \<and> (\<forall>ex. fst (Transaction_commit t wd) = Inl ex \<longrightarrow>
          fst (snd (Transaction_commit t wd)) = t
          \<and> sent (snd (snd (Transaction_commit t (snd (snd (Transaction_commit t wd))))))
              = sent wd @ [post_request (tx_session t) (tx_url t ''commit''),
                           post_request (tx_session t) (tx_url t ''commit'')])
    \<and> (tx_completed (fst (snd (Transaction_rollback t wd)))
            \<longleftrightarrow> (\<exists>response.
                   respond wd (sent wd) (post_request (tx_session t) (tx_url t ''rollback'')) = Inr response
                   \<and> status_code response = 200))
    \<and> (tx_completed (fst (snd (Transaction_rollback t wd)))
            \<longleftrightarrow> fst (Transaction_rollback t wd) = Inr ())
    \<and> (\<forall>ex. fst (Transaction_rollback t wd) = Inl ex \<longrightarrow>
          fst (snd (Transaction_rollback t wd)) = t
          \<and> sent (snd (snd (Transaction_rollback t (snd (snd (Transaction_rollback t wd))))))
              = sent wd @ [post_request (tx_session t) (tx_url t ''rollback''),
                           post_request (tx_session t) (tx_url t ''rollback'')])"
proof -
  let ?rc = "post_request (tx_session t) (tx_url t ''commit'') :: 'a request"
  let ?rr = "post_request (tx_session t) (tx_url t ''rollback'') :: 'a request"
  have not_ok: "raise_if_error code \<noteq> Inr ()" if "code \<noteq> 200" for code
    using that by (simp add: raise_if_error_Inr)
  have sent_commit: "sent (snd (snd (Transaction_commit t wd'))) = sent wd' @ [?rc]" for wd' :: "'a world"
    by (simp add: commit_active [OF active] send_def split: sum.splits)
  have sent_rollback: "sent (snd (snd (Transaction_rollback t wd'))) = sent wd' @ [?rr]" for wd' :: "'a world"
    by (simp add: rollback_active [OF active] send_def split: sum.splits)
  have c1: "tx_completed (fst (snd (Transaction_commit t wd)))
            \<longleftrightarrow> (\<exists>response. respond wd (sent wd) ?rc = Inr response \<and> status_code response = 200)"
    using active by (cases "respond wd (sent wd) ?rc") (simp_all add: commit_active)
  have c2: "tx_completed (fst (snd (Transaction_commit t wd))) \<longleftrightarrow> fst (Transaction_commit t wd) = Inr ()"
    using active by (cases "respond wd (sent wd) ?rc") (simp_all add: commit_active not_ok)
  have c3: "fst (snd (Transaction_commit t wd)) = t" if "fst (Transaction_commit t wd) = Inl ex" for ex
    using active that by (cases "respond wd (sent wd) ?rc") (simp_all add: commit_active split: if_splits)
  have r1: "tx_completed (fst (snd (Transaction_rollback t wd)))
            \<longleftrightarrow> (\<exists>response. respond wd (sent wd) ?rr = Inr response \<and> status_code response = 200)"
    using active by (cases "respond wd (sent wd) ?rr") (simp_all add: rollback_active)
  have r2: "tx_completed (fst (snd (Transaction_rollback t wd))) \<longleftrightarrow> fst (Transaction_rollback t wd) = Inr ()"
    using active by (cases "respond wd (sent wd) ?rr") (simp_all add: rollback_active not_ok)
  have r3: "fst (snd (Transaction_rollback t wd)) = t" if "fst (Transaction_rollback t wd) = Inl ex" for ex
    using active that by (cases "respond wd (sent wd) ?rr") (simp_all add: rollback_active split: if_splits)
  from c1 c2 c3 r1 r2 r3 show ?thesis
    by (simp add: sent_commit sent_rollback)
qed

theorem completion_only_after_success_witness:
  "\<not> tx_completed \<lparr>tx_session = \<lparr>base_url = ''http://127.0.0.1:12000''\<rparr>, tx_index = 5, tx_completed = False\<rparr>
   \<and> fst (Transaction_commit \<lparr>tx_session = \<lparr>base_url = ''http://127.0.0.1:12000''\<rparr>, tx_index = 5, tx_completed = False\<rparr>
         (\<lparr>sent = [], respond = (\<lambda>h rq. Inr \<lparr>status_code = 408, int_field = (\<lambda>name. Inl (KeyError name)), get_field = (\<lambda>name. None)\<rparr>)\<rparr> :: string world)) = Inl TimeoutError
   \<and> \<not> tx_completed (fst (snd (Transaction_commit \<lparr>tx_session = \<lparr>base_url = ''http://127.0.0.1:12000''\<rparr>, tx_index = 5, tx_completed = False\<rparr>
         (\<lparr>sent = [], respond = (\<lambda>h rq. Inr \<lparr>status_code = 408, int_field = (\<lambda>name. Inl (KeyError name)), get_field = (\<lambda>name. None)\<rparr>)\<rparr> :: string world))))
   \<and> fst (Transaction_rollback \<lparr>tx_session = \<lparr>base_url = ''http://127.0.0.1:12000''\<rparr>, tx_index = 5, tx_completed = False\<rparr>
         (\<lparr>sent = [], respond = (\<lambda>h rq. Inr \<lparr>status_code = 200, int_field = (\<lambda>name. Inl (KeyError name)), get_field = (\<lambda>name. None)\<rparr>)\<rparr> :: string world)) = Inr ()
   \<and> tx_completed (fst (snd (Transaction_rollback \<lparr>tx_session = \<lparr>base_url = ''http://127.0.0.1:12000''\<rparr>, tx_index = 5, tx_completed = False\<rparr>
         (\<lparr>sent = [], respond = (\<lambda>h rq. Inr \<lparr>status_code = 200, int_field = (\<lambda>name. Inl (KeyError name)), get_field = (\<lambda>name. None)\<rparr>)\<rparr> :: string world))))"
  using completion_only_after_success [of "\<lparr>tx_session = \<lparr>base_url = ''http://127.0.0.1:12000''\<rparr>, tx_index = 5, tx_completed = False\<rparr>" "(\<lparr>sent = [], respond = (\<lambda>h rq. Inr \<lparr>status_code = 408, int_field = (\<lambda>name. Inl (KeyError name)), get_field = (\<lambda>name. None)\<rparr>)\<rparr> :: string world)"]
        completion_only_after_success [of "\<lparr>tx_session = \<lparr>base_url = ''http://127.0.0.1:12000''\<rparr>, tx_index = 5, tx_completed = False\<rparr>" "(\<lparr>sent = [], respond = (\<lambda>h rq. Inr \<lparr>status_code = 200, int_field = (\<lambda>name. Inl (KeyError name)), get_field = (\<lambda>name. None)\<rparr>)\<rparr> :: string world)"]
  by (simp add: Transaction_commit_def Transaction_rollback_def AsyncSession_post_def send_def
        raise_if_error_def)

text \<open>
  Claim C8.  \<open>keep_alive\<close> issues its POST whatever the completion flag says (there
  is no hypothesis on \<open>tx_completed t\<close>), leaves the transaction as it is, and its
  outcome is \<open>raise_if_error\<close> of the response's status: 410 surfaces as
  transaction-not-found, 412 as transaction-already-completed.
\<close>

theorem keep_alive_not_blocked:
  "sent (snd (snd (Transaction_keep_alive t wd)))
     = sent wd @ [post_request (tx_session t) (tx_url t ''keep-alive'')]
   \<and> fst (snd (Transaction_keep_alive t wd)) = t
   \<and> (\<forall>response.
         respond wd (sent wd) (post_request (tx_session t) (tx_url t ''keep-alive'')) = Inr response
         \<longrightarrow> fst (Transaction_keep_alive t wd) = raise_if_error (status_code response))
   \<and> (\<forall>response.
         respond wd (sent wd) (post_request (tx_session t) (tx_url t ''keep-alive'')) = Inr response
         \<and> status_code response = 410
         \<longrightarrow> fst (Transaction_keep_alive t wd) = Inl TransactionNotFoundError)
   \<and> (\<forall>response.
         respond wd (sent wd) (post_request (tx_session t) (tx_url t ''keep-alive'')) = Inr response
         \<and> status_code response = 412
         \<longrightarrow> fst (Transaction_keep_alive t wd) = Inl TransactionCompletedError)"
proof -
  have "raise_if_error 410 = Inl TransactionNotFoundError"
    and "raise_if_error 412 = Inl TransactionCompletedError"
    by (simp_all add: raise_if_error_def)
  then show ?thesis
    by (auto simp: Transaction_keep_alive_def AsyncSession_post_def send_def split: sum.splits)
qed

theorem keep_alive_not_blocked_witness:
  "tx_completed \<lparr>tx_session = \<lparr>base_url = ''http://127.0.0.1:12000''\<rparr>, tx_index = 5, tx_completed = True\<rparr>
   \<and> sent (snd (snd (Transaction_keep_alive \<lparr>tx_session = \<lparr>base_url = ''http://127.0.0.1:12000''\<rparr>, tx_index = 5, tx_completed = True\<rparr>
         (\<lparr>sent = [], respond = (\<lambda>h rq. Inr \<lparr>status_code = 412, int_field = (\<lambda>name. Inl (KeyError name)), get_field = (\<lambda>name. None)\<rparr>)\<rparr> :: string world))))
       = [\<lparr>req_method = POST, req_url = ''http://127.0.0.1:12000/v2/tx/5/keep-alive'',
           req_params = [], req_json = None\<rparr>]
   \<and> fst (Transaction_keep_alive \<lparr>tx_session = \<lparr>base_url = ''http://127.0.0.1:12000''\<rparr>, tx_index = 5, tx_completed = True\<rparr>
         (\<lparr>sent = [], respond = (\<lambda>h rq. Inr \<lparr>status_code = 412, int_field = (\<lambda>name. Inl (KeyError name)), get_field = (\<lambda>name. None)\<rparr>)\<rparr> :: string world)) = Inl TransactionCompletedError
   \<and> fst (Transaction_keep_alive \<lparr>tx_session = \<lparr>base_url = ''http://127.0.0.1:12000''\<rparr>, tx_index = 5, tx_completed = True\<rparr>
         (\<lparr>sent = [], respond = (\<lambda>h rq. Inr \<lparr>status_code = 410, int_field = (\<lambda>name. Inl (KeyError name)), get_field = (\<lambda>name. None)\<rparr>)\<rparr> :: string world)) = Inl TransactionNotFoundError"
proof -
  have "str_int 5 = ''5''" by code_simp
  then show ?thesis
    using keep_alive_not_blocked [of "\<lparr>tx_session = \<lparr>base_url = ''http://127.0.0.1:12000''\<rparr>, tx_index = 5, tx_completed = True\<rparr>" "(\<lparr>sent = [], respond = (\<lambda>h rq. Inr \<lparr>status_code = 412, int_field = (\<lambda>name. Inl (KeyError name)), get_field = (\<lambda>name. None)\<rparr>)\<rparr> :: string world)"]
          keep_alive_not_blocked [of "\<lparr>tx_session = \<lparr>base_url = ''http://127.0.0.1:12000''\<rparr>, tx_index = 5, tx_completed = True\<rparr>" "(\<lparr>sent = [], respond = (\<lambda>h rq. Inr \<lparr>status_code = 410, int_field = (\<lambda>name. Inl (KeyError name)), get_field = (\<lambda>name. None)\<rparr>)\<rparr> :: string world)"]
    by (simp add: post_request_def tx_url_def raise_if_error_def)
qed

section \<open>Compare-and-set\<close>

text \<open>
  Claim C7.  \<open>cas\<close> without \<open>old_version\<close> is \<open>cas\<close> with the cached version; the
  request carries the version as \<open>old-version\<close>; on status 409 the call raises
  \<open>CasError\<close> and the Entry is unchanged; on status 200 with a version in the body
  the call returns that version and stores it as the cached version.
\<close>

theorem cas_behaviour:
  "Entry_cas e new_value None wd = Entry_cas e new_value (Some (entry_version e)) wd
   \<and> sent (snd (snd (Entry_cas e new_value (Some old) wd)))
       = sent wd @ [put_request (entry_session e) (entry_url e)
                      (entry_params e @ [(''old-version'', PInt old)]) new_value]
   \<and> (\<forall>response.
         respond wd (sent wd)
           (put_request (entry_session e) (entry_url e)
              (entry_params e @ [(''old-version'', PInt old)]) new_value) = Inr response
         \<and> status_code response = 409 \<longrightarrow>
         fst (Entry_cas e new_value (Some old) wd) = Inl CasError
         \<and> fst (snd (Entry_cas e new_value (Some old) wd)) = e)
   \<and> (\<forall>response v.
         respond wd (sent wd)
           (put_request (entry_session e) (entry_url e)
              (entry_params e @ [(''old-version'', PInt old)]) new_value) = Inr response
         \<and> status_code response = 200 \<and> int_field response ''version'' = Inr v \<longrightarrow>
         fst (Entry_cas e new_value (Some old) wd) = Inr v
         \<and> fst (snd (Entry_cas e new_value (Some old) wd)) = e\<lparr>entry_version := v\<rparr>)"
proof -
  have "raise_if_error 409 = Inl CasError" by (simp add: raise_if_error_def)
  then show ?thesis
    by (auto simp: Entry_cas_def AsyncSession_put_def send_def raise_if_error_200 split: sum.splits)
qed

theorem cas_behaviour_witness:
  "fst (Entry_cas
         \<lparr>entry_session = \<lparr>base_url = ''http://127.0.0.1:12000''\<rparr>, entry_key = [''k''],
          entry_version = 7, entry_value = Some ''old'', entry_n = 3, entry_r = 2, entry_w = 2,
          entry_transaction = None\<rparr>
         (Some ''new'') (Some 8)
         \<lparr>sent = [],
          respond = (\<lambda>h rq. Inr \<lparr>status_code = 409, int_field = (\<lambda>name. Inl (KeyError name)),
                                    get_field = (\<lambda>name. None)\<rparr>)\<rparr>) = Inl CasError
   \<and> fst (snd (Entry_cas
         \<lparr>entry_session = \<lparr>base_url = ''http://127.0.0.1:12000''\<rparr>, entry_key = [''k''],
          entry_version = 7, entry_value = Some ''old'', entry_n = 3, entry_r = 2, entry_w = 2,
          entry_transaction = None\<rparr>
         (Some ''new'') (Some 8)
         \<lparr>sent = [],
          respond = (\<lambda>h rq. Inr \<lparr>status_code = 409, int_field = (\<lambda>name. Inl (KeyError name)),
                                    get_field = (\<lambda>name. None)\<rparr>)\<rparr>))
       = \<lparr>entry_session = \<lparr>base_url = ''http://127.0.0.1:12000''\<rparr>, entry_key = [''k''],
          entry_version = 7, entry_value = Some ''old'', entry_n = 3, entry_r = 2, entry_w = 2,
          entry_transaction = None\<rparr>
   \<and> fst (Entry_cas
         \<lparr>entry_session = \<lparr>base_url = ''http://127.0.0.1:12000''\<rparr>, entry_key = [''k''],
          entry_version = 7, entry_value = Some ''old'', entry_n = 3, entry_r = 2, entry_w = 2,
          entry_transaction = None\<rparr>
         (Some ''new'') (Some 7)
         \<lparr>sent = [],
          respond = (\<lambda>h rq. Inr \<lparr>status_code = 200, int_field = (\<lambda>name. Inr 8),
                                    get_field = (\<lambda>name. None)\<rparr>)\<rparr>) = Inr 8
   \<and> entry_version (fst (snd (Entry_cas
         \<lparr>entry_session = \<lparr>base_url = ''http://127.0.0.1:12000''\<rparr>, entry_key = [''k''],
          entry_version = 7, entry_value = Some ''old'', entry_n = 3, entry_r = 2, entry_w = 2,
          entry_transaction = None\<rparr>
         (Some ''new'') (Some 7)
         \<lparr>sent = [],
          respond = (\<lambda>h rq. Inr \<lparr>status_code = 200, int_field = (\<lambda>name. Inr 8),
                                    get_field = (\<lambda>name. None)\<rparr>)\<rparr>))) = 8"
  using cas_behaviour
          [where e = "\<lparr>entry_session = \<lparr>base_url = ''http://127.0.0.1:12000''\<rparr>, entry_key = [''k''],
                        entry_version = 7, entry_value = Some ''old'', entry_n = 3, entry_r = 2,
                        entry_w = 2, entry_transaction = None\<rparr>"
             and new_value = "Some ''new''" and old = 8
             and wd = "\<lparr>sent = [],
                       respond = (\<lambda>h rq. Inr \<lparr>status_code = 409,
                                                 int_field = (\<lambda>name. Inl (KeyError name)),
                                                 get_field = (\<lambda>name. None)\<rparr>)\<rparr>"]
        cas_behaviour
          [where e = "\<lparr>entry_session = \<lparr>base_url = ''http://127.0.0.1:12000''\<rparr>, entry_key = [''k''],
                        entry_version = 7, entry_value = Some ''old'', entry_n = 3, entry_r = 2,
                        entry_w = 2, entry_transaction = None\<rparr>"
             and new_value = "Some ''new''" and old = 7
             and wd = "\<lparr>sent = [],
                       respond = (\<lambda>h rq. Inr \<lparr>status_code = 200, int_field = (\<lambda>name. Inr 8),
                                                 get_field = (\<lambda>name. None)\<rparr>)\<rparr>"]
  by simp

section \<open>Leaving a transaction context\<close>

text \<open>
  Leaving an entered context calls \<open>commit\<close> when the guarded block completed and
  \<open>rollback\<close> when an exception left it: the outcome and the requests issued are
  those of that call.  When the call returns normally (also when it is skipped
  because the transaction is already locally completed), the stored Transaction is
  cleared.
\<close>

lemma aexit_commit_or_rollback:
  assumes entered: "ctx_tx c = Some t"
  shows "(exc_type = None \<longrightarrow>
            fst (TransactionContext_aexit c exc_type wd) = fst (Transaction_commit t wd)
          \<and> snd (snd (TransactionContext_aexit c exc_type wd)) = snd (snd (Transaction_commit t wd)))
    \<and> (exc_type \<noteq> None \<longrightarrow>
            fst (TransactionContext_aexit c exc_type wd) = fst (Transaction_rollback t wd)
          \<and> snd (snd (TransactionContext_aexit c exc_type wd)) = snd (snd (Transaction_rollback t wd)))
    \<and> (fst (TransactionContext_aexit c exc_type wd) = Inr () \<longrightarrow>
          fst (snd (TransactionContext_aexit c exc_type wd)) = c\<lparr>ctx_tx := None\<rparr>)"
  using entered
  by (auto simp: TransactionContext_aexit_def split: prod.splits sum.splits)

text \<open>
  Claim C2: on every exit path, also when the commit or rollback itself fails, the
  stored Transaction is cleared and the context is idle again.  \<open>__aexit__\<close> does
  assign \<open>self._tx = None\<close>, but after the call and with no \<open>finally\<close>: with the
  server answering 408 to the commit, \<open>__aexit__\<close> raises \<open>TimeoutError\<close>, the context
  still holds its Transaction, and entering it again raises \<open>RuntimeError\<close> without
  any request.
\<close>

theorem aexit_failed_commit_keeps_transaction:
  "fst (TransactionContext_aexit \<lparr>ctx_session = \<lparr>base_url = ''http://127.0.0.1:12000''\<rparr>, ctx_tx = Some \<lparr>tx_session = \<lparr>base_url = ''http://127.0.0.1:12000''\<rparr>, tx_index = 5, tx_completed = False\<rparr>\<rparr> None
         (\<lparr>sent = [], respond = (\<lambda>h rq. Inr \<lparr>status_code = 408, int_field = (\<lambda>name. Inl (KeyError name)), get_field = (\<lambda>name. None)\<rparr>)\<rparr> :: string world)) = Inl TimeoutError
   \<and> ctx_tx (fst (snd (TransactionContext_aexit \<lparr>ctx_session = \<lparr>base_url = ''http://127.0.0.1:12000''\<rparr>, ctx_tx = Some \<lparr>tx_session = \<lparr>base_url = ''http://127.0.0.1:12000''\<rparr>, tx_index = 5, tx_completed = False\<rparr>\<rparr> None
         (\<lparr>sent = [], respond = (\<lambda>h rq. Inr \<lparr>status_code = 408, int_field = (\<lambda>name. Inl (KeyError name)), get_field = (\<lambda>name. None)\<rparr>)\<rparr> :: string world)))) = Some \<lparr>tx_session = \<lparr>base_url = ''http://127.0.0.1:12000''\<rparr>, tx_index = 5, tx_completed = False\<rparr>
   \<and> sent (snd (snd (TransactionContext_aexit \<lparr>ctx_session = \<lparr>base_url = ''http://127.0.0.1:12000''\<rparr>, ctx_tx = Some \<lparr>tx_session = \<lparr>base_url = ''http://127.0.0.1:12000''\<rparr>, tx_index = 5, tx_completed = False\<rparr>\<rparr> None
         (\<lparr>sent = [], respond = (\<lambda>h rq. Inr \<lparr>status_code = 408, int_field = (\<lambda>name. Inl (KeyError name)), get_field = (\<lambda>name. None)\<rparr>)\<rparr> :: string world)))) = [\<lparr>req_method = POST, req_url = ''http://127.0.0.1:12000/v2/tx/5/commit'', req_params = [], req_json = None\<rparr>]
   \<and> fst (TransactionContext_aenter (fst (snd (TransactionContext_aexit \<lparr>ctx_session = \<lparr>base_url = ''http://127.0.0.1:12000''\<rparr>, ctx_tx = Some \<lparr>tx_session = \<lparr>base_url = ''http://127.0.0.1:12000''\<rparr>, tx_index = 5, tx_completed = False\<rparr>\<rparr> None
         (\<lparr>sent = [], respond = (\<lambda>h rq. Inr \<lparr>status_code = 408, int_field = (\<lambda>name. Inl (KeyError name)), get_field = (\<lambda>name. None)\<rparr>)\<rparr> :: string world))))
         (snd (snd (TransactionContext_aexit \<lparr>ctx_session = \<lparr>base_url = ''http://127.0.0.1:12000''\<rparr>, ctx_tx = Some \<lparr>tx_session = \<lparr>base_url = ''http://127.0.0.1:12000''\<rparr>, tx_index = 5, tx_completed = False\<rparr>\<rparr> None
         (\<lparr>sent = [], respond = (\<lambda>h rq. Inr \<lparr>status_code = 408, int_field = (\<lambda>name. Inl (KeyError name)), get_field = (\<lambda>name. None)\<rparr>)\<rparr> :: string world)))))
       = Inl (RuntimeError ''This transaction context already in entered state'')
   \<and> sent (snd (snd (TransactionContext_aenter (fst (snd (TransactionContext_aexit \<lparr>ctx_session = \<lparr>base_url = ''http://127.0.0.1:12000''\<rparr>, ctx_tx = Some \<lparr>tx_session = \<lparr>base_url = ''http://127.0.0.1:12000''\<rparr>, tx_index = 5, tx_completed = False\<rparr>\<rparr> None
         (\<lparr>sent = [], respond = (\<lambda>h rq. Inr \<lparr>status_code = 408, int_field = (\<lambda>name. Inl (KeyError name)), get_field = (\<lambda>name. None)\<rparr>)\<rparr> :: string world))))
         (snd (snd (TransactionContext_aexit \<lparr>ctx_session = \<lparr>base_url = ''http://127.0.0.1:12000''\<rparr>, ctx_tx = Some \<lparr>tx_session = \<lparr>base_url = ''http://127.0.0.1:12000''\<rparr>, tx_index = 5, tx_completed = False\<rparr>\<rparr> None
         (\<lparr>sent = [], respond = (\<lambda>h rq. Inr \<lparr>status_code = 408, int_field = (\<lambda>name. Inl (KeyError name)), get_field = (\<lambda>name. None)\<rparr>)\<rparr> :: string world)))))))
       = [\<lparr>req_method = POST, req_url = ''http://127.0.0.1:12000/v2/tx/5/commit'', req_params = [], req_json = None\<rparr>]"
proof -
  have "str_int 5 = ''5''" by code_simp
  then show ?thesis
    by (simp add: TransactionContext_aexit_def TransactionContext_aenter_def Transaction_commit_def
          AsyncSession_post_def post_request_def tx_url_def send_def raise_if_error_def)
qed

section \<open>The cached version and value of an Entry\<close>

text \<open>
  A successful \<open>get\<close> or \<open>listen\<close> takes both the version and the value from the one
  response it received; \<open>set\<close> and \<open>cas\<close> never assign the cached value.
\<close>

lemma get_refreshes_pair:
  assumes "Entry_get e wd = (Inr val, e', wd')"
  shows "\<exists>response. respond wd (sent wd) (get_request (entry_session e) (entry_url e) (entry_params e))
                       = Inr response
           \<and> status_code response = 200
           \<and> int_field response ''version'' = Inr (entry_version e')
           \<and> entry_value e' = get_field response ''value''
           \<and> val = get_field response ''value''"
  using assms
  by (auto simp: Entry_get_def AsyncSession_get_def send_def raise_if_error_Inr
           split: sum.splits)

lemma listen_refreshes_pair:
  assumes "Entry_listen e wait_version timeout wd = (Inr val, e', wd')"
  shows "\<exists>response rq. respond wd (sent wd) rq = Inr response
           \<and> status_code response = 200
           \<and> int_field response ''version'' = Inr (entry_version e')
           \<and> entry_value e' = get_field response ''value''
           \<and> val = get_field response ''value''"
  using assms
  by (auto simp: Entry_listen_def AsyncSession_get_def send_def raise_if_error_Inr Let_def
           split: sum.splits)

lemma set_cas_keep_value:
  "entry_value (fst (snd (Entry_set e new_value wd))) = entry_value e"
  "entry_value (fst (snd (Entry_cas e new_value old_version wd))) = entry_value e"
  by (auto simp: Entry_set_def Entry_cas_def Let_def split: prod.splits sum.splits)

text \<open>
  Claim C1 fails for \<open>set\<close> (and likewise for \<open>cas\<close>): an Entry caching version 7
  with value \<open>old\<close> writes \<open>new\<close>, the server answers 200 with version 8, and
  the Entry then holds version 8 together with the value \<open>old\<close>.
\<close>

theorem set_keeps_stale_value:
  "fst (Entry_set
         \<lparr>entry_session = \<lparr>base_url = ''http://127.0.0.1:12000''\<rparr>, entry_key = [''k''],
          entry_version = 7, entry_value = Some ''old'', entry_n = 3, entry_r = 2, entry_w = 2,
          entry_transaction = None\<rparr>
         (Some ''new'')
         \<lparr>sent = [],
          respond = (\<lambda>h rq. Inr \<lparr>status_code = 200, int_field = (\<lambda>name. Inr 8),
                                    get_field = (\<lambda>name. None)\<rparr>)\<rparr>) = Inr 8
   \<and> fst (snd (Entry_set
         \<lparr>entry_session = \<lparr>base_url = ''http://127.0.0.1:12000''\<rparr>, entry_key = [''k''],
          entry_version = 7, entry_value = Some ''old'', entry_n = 3, entry_r = 2, entry_w = 2,
          entry_transaction = None\<rparr>
         (Some ''new'')
         \<lparr>sent = [],
          respond = (\<lambda>h rq. Inr \<lparr>status_code = 200, int_field = (\<lambda>name. Inr 8),
                                    get_field = (\<lambda>name. None)\<rparr>)\<rparr>))
       = \<lparr>entry_session = \<lparr>base_url = ''http://127.0.0.1:12000''\<rparr>, entry_key = [''k''],
          entry_version = 8, entry_value = Some ''old'', entry_n = 3, entry_r = 2, entry_w = 2,
          entry_transaction = None\<rparr>"
  by (simp add: Entry_set_def AsyncSession_put_def send_def raise_if_error_def)

section \<open>The wire encoding of keys is injective\<close>

text \<open>Hexadecimal digits are pairwise distinct and none of them is the separator.\<close>

lemma of_char_hexdigit:
  "d < 16 \<Longrightarrow> (of_char (hexdigit d) :: nat) = (if d < 10 then 48 + d else 55 + d)"
  by (simp add: hexdigit_def)

lemma hexdigit_inj:
  assumes "a < 16" "b < 16" "hexdigit a = hexdigit b"
  shows "a = b"
proof -
  have "(of_char (hexdigit a) :: nat) = of_char (hexdigit b)" using assms(3) by simp
  with assms(1,2) show ?thesis by (simp add: of_char_hexdigit split: if_splits)
qed

lemma hexdigit_not_colon: "d < 16 \<Longrightarrow> hexdigit d \<noteq> CHR '':''"
proof
  assume d: "d < 16" and "hexdigit d = CHR '':''"
  then have "(of_char (hexdigit d) :: nat) = of_char (CHR '':'')" by simp
  with d show False by (simp add: of_char_hexdigit split: if_splits)
qed

lemma percent_unsafe: "CHR ''%'' \<notin> set safe_chars"
  by (simp add: safe_chars_def)

lemma colon_unsafe: "CHR '':'' \<notin> set safe_chars"
  by (simp add: safe_chars_def)

lemma div16: "(of_char c :: nat) div 16 < 16"
proof -
  have "(of_char c :: nat) < 256" by (rule nat_of_char_less_256)
  then show ?thesis by arith
qed

lemma quote_Nil: "quote [] = []"
  by (simp add: quote_def)

lemma quote_Cons: "quote (a # s) = quote_byte a @ quote s"
  by (simp add: quote_def)

lemma quote_byte_nonempty: "quote_byte c \<noteq> []"
  by (simp add: quote_byte_def)

lemma colon_not_in_quote_byte: "CHR '':'' \<notin> set (quote_byte c)"
  using colon_unsafe hexdigit_not_colon [OF div16, of c] hexdigit_not_colon [of "of_char c mod 16"]
  by (auto simp: quote_byte_def)

lemma colon_not_in_quote: "CHR '':'' \<notin> set (quote s)"
  by (induction s) (simp_all add: quote_Nil quote_Cons colon_not_in_quote_byte)

lemma quote_byte_prefix_free:
  assumes "quote_byte a @ xs = quote_byte b @ ys"
  shows "a = b \<and> xs = ys"
proof (cases "a \<in> set safe_chars")
  case sa: True
  show ?thesis
  proof (cases "b \<in> set safe_chars")
    case True
    with sa assms show ?thesis by (simp add: quote_byte_def)
  next
    case False
    with sa assms have "a = CHR ''%''" by (simp add: quote_byte_def)
    with sa percent_unsafe show ?thesis by simp
  qed
next
  case ua: False
  show ?thesis
  proof (cases "b \<in> set safe_chars")
    case True
    with ua assms have "b = CHR ''%''" by (simp add: quote_byte_def)
    with True percent_unsafe show ?thesis by simp
  next
    case False
    with ua assms have h: "hexdigit (of_char a div 16) = hexdigit (of_char b div 16)"
      and l: "hexdigit (of_char a mod 16) = hexdigit (of_char b mod 16)" and r: "xs = ys"
      by (simp_all add: quote_byte_def)
    have d: "(of_char a :: nat) div 16 = of_char b div 16"
      using h by (rule hexdigit_inj [OF div16 div16])
    have "(of_char a :: nat) mod 16 < 16" and "(of_char b :: nat) mod 16 < 16" by simp_all
    then have m: "(of_char a :: nat) mod 16 = of_char b mod 16"
      using l by (rule hexdigit_inj)
    have "(of_char a :: nat) = of_char a div 16 * 16 + of_char a mod 16" by simp
    also have "\<dots> = of_char b div 16 * 16 + of_char b mod 16" by (simp only: d m)
    also have "\<dots> = of_char b" by simp
    finally have "a = b" by (simp only: of_char_eq_iff)
    with r show ?thesis by simp
  qed
qed

lemma quote_inj: "quote s = quote t \<Longrightarrow> s = t"
proof (induction s arbitrary: t)
  case Nil
  then show ?case by (cases t) (simp_all add: quote_Nil quote_Cons quote_byte_nonempty)
next
  case (Cons a s)
  show ?case
  proof (cases t)
    case Nil
    with Cons.prems show ?thesis by (simp add: quote_Nil quote_Cons quote_byte_nonempty)
  next
    case (Cons b t')
    with Cons.prems have "quote_byte a @ quote s = quote_byte b @ quote t'"
      by (simp add: quote_Cons)
    then have "a = b" "quote s = quote t'" using quote_byte_prefix_free by blast+
    with Cons.IH Cons show ?thesis by simp
  qed
qed

lemma takeWhile_sep: "c \<notin> set x \<Longrightarrow> takeWhile (\<lambda>a. a \<noteq> c) (x @ c # r) = x"
  by (induction x) auto

lemma split_at_sep:
  assumes "c \<notin> set x" "c \<notin> set y" "x @ c # r = y @ c # r'"
  shows "x = y \<and> r = r'"
proof -
  have "takeWhile (\<lambda>a. a \<noteq> c) (x @ c # r) = x" using assms(1) by (rule takeWhile_sep)
  moreover have "takeWhile (\<lambda>a. a \<noteq> c) (y @ c # r') = y" using assms(2) by (rule takeWhile_sep)
  ultimately have "x = y" using assms(3) by simp
  with assms(3) show ?thesis by simp
qed

lemma join_Cons: "join sep (x # xs) = (if xs = [] then x else x @ sep @ join sep xs)"
  by (cases xs) simp_all

lemma join_inj:
  assumes "\<forall>x \<in> set xs. c \<notin> set x" "\<forall>y \<in> set ys. c \<notin> set y"
    and "xs \<noteq> []" "ys \<noteq> []" "join [c] xs = join [c] ys"
  shows "xs = ys"
  using assms
proof (induction xs arbitrary: ys)
  case Nil
  then show ?case by simp
next
  case (Cons x xs)
  from Cons.prems(4) obtain y ys' where ys: "ys = y # ys'" by (cases ys) auto
  from Cons.prems(1) have cx: "c \<notin> set x" and cxs: "\<forall>x \<in> set xs. c \<notin> set x" by simp_all
  from Cons.prems(2) ys have cy: "c \<notin> set y" and cys: "\<forall>y \<in> set ys'. c \<notin> set y" by simp_all
  from Cons.prems(5) ys have eq: "join [c] (x # xs) = join [c] (y # ys')" by simp
  show ?case
  proof (cases "xs = []")
    case xe: True
    show ?thesis
    proof (cases "ys' = []")
      case True
      with xe eq ys show ?thesis by simp
    next
      case False
      have "join [c] (y # ys') = y @ c # join [c] ys'" using False by (simp only: join_Cons if_False append.simps)
      moreover have "join [c] (x # xs) = x" using xe by simp
      ultimately have "x = y @ c # join [c] ys'" using eq by simp
      then have "c \<in> set x" by simp
      with cx show ?thesis by simp
    qed
  next
    case xn: False
    have jx: "join [c] (x # xs) = x @ c # join [c] xs"
      using xn by (simp only: join_Cons if_False append.simps)
    show ?thesis
    proof (cases "ys' = []")
      case True
      then have "join [c] (y # ys') = y" by simp
      with jx eq have "y = x @ c # join [c] xs" by simp
      then have "c \<in> set y" by simp
      with cy show ?thesis by simp
    next
      case False
      have "join [c] (y # ys') = y @ c # join [c] ys'"
        using False by (simp only: join_Cons if_False append.simps)
      with jx eq have "x @ c # join [c] xs = y @ c # join [c] ys'" by simp
      then have "x = y \<and> join [c] xs = join [c] ys'"
        using cx cy by (intro split_at_sep)
      then have xy: "x = y" and rest: "join [c] xs = join [c] ys'" by simp_all
      have "xs = ys'"
        using cxs cys xn False rest by (rule Cons.IH)
      with xy ys show ?thesis by simp
    qed
  qed
qed

lemma key_to_str_inj:
  assumes "k1 \<noteq> []" "k2 \<noteq> []" "key_to_str k1 = key_to_str k2"
  shows "k1 = k2"
proof -
  have "map quote k1 = map quote k2"
  proof (rule join_inj [where c = "CHR '':''"])
    show "\<forall>x\<in>set (map quote k1). CHR '':'' \<notin> set x" by (simp add: colon_not_in_quote)
    show "\<forall>y\<in>set (map quote k2). CHR '':'' \<notin> set y" by (simp add: colon_not_in_quote)
    show "map quote k1 \<noteq> []" "map quote k2 \<noteq> []" using assms(1,2) by simp_all
    show "join '':'' (map quote k1) = join '':'' (map quote k2)"
      using assms(3) by (simp add: key_to_str_def)
  qed
  moreover have "inj quote" by (rule injI) (rule quote_inj)
  ultimately show ?thesis by (simp add: inj_map_eq_map)
qed

text \<open>
  Claim C10.  \<open>quote\<close> never outputs the separator \<open>:\<close>, and two distinct keys,
  each a non-empty list of non-empty segments, have distinct encodings.
\<close>

theorem key_to_str_injective:
  "CHR '':'' \<notin> set (quote part)
   \<and> (k1 \<noteq> [] \<and> [] \<notin> set k1 \<and> k2 \<noteq> [] \<and> [] \<notin> set k2 \<and> k1 \<noteq> k2
        \<longrightarrow> key_to_str k1 \<noteq> key_to_str k2)"
  using colon_not_in_quote key_to_str_inj by blast

theorem key_to_str_injective_witness:
  "[''a:b'', ''c''] \<noteq> [] \<and> [] \<notin> set [''a:b'', ''c'']
   \<and> [''a'', ''b:c''] \<noteq> [] \<and> [] \<notin> set [''a'', ''b:c'']
   \<and> [''a:b'', ''c''] \<noteq> [''a'', ''b:c'']
   \<and> key_to_str [''a:b'', ''c''] = ''a%3Ab:c''
   \<and> key_to_str [''a'', ''b:c''] = ''a:b%3Ac''
   \<and> key_to_str [''a:b'', ''c''] \<noteq> key_to_str [''a'', ''b:c'']"
proof -
  have "key_to_str [''a:b'', ''c''] = ''a%3Ab:c''" by code_simp
  moreover have "key_to_str [''a'', ''b:c''] = ''a:b%3Ac''" by code_simp
  ultimately show ?thesis
    using key_to_str_injective [of "''x''" "[''a:b'', ''c'']" "[''a'', ''b:c'']"] by simp
qed

end
